theory Spec2Isabelle
  imports Complex_Main "HOL-Library.Word"
begin

section \<open>NodeDssSignaler: a polling signaler over a node-dss relay\<close>

text \<open>
  A shallow embedding of \<^verbatim>\<open>NodeDssSignaler.cs\<close>. The class is a Unity
  \<^verbatim>\<open>MonoBehaviour\<close>: the engine calls \<^verbatim>\<open>Start\<close> once, then \<^verbatim>\<open>Update\<close>
  every frame, and resumes a coroutine after its \<^verbatim>\<open>yield return\<close> when the web
  request it waits for has finished. All of this runs on one thread, so a method body and
  the part of a coroutine between two yields are atomic steps on the object's fields.

  Conventions of the model:
  \<^item> the fields of the object are a record, each method takes the record and returns the
    new one together with the list of effects it performed, in program order;
  \<^item> an exception is a value (\<open>Threw e\<close>, or \<open>Inl e\<close>);
  \<^item> \<^verbatim>\<open>float\<close> is modelled by \<open>real\<close>: rounding, infinities and NaN are outside
    the model;
  \<^item> a C\# \<^verbatim>\<open>string\<close> is a \<open>string\<close>; a reference that the source dereferences
    (\<^verbatim>\<open>msg.Data\<close>) is a \<open>string option\<close> with \<open>None\<close> for \<^verbatim>\<open>null\<close>, while
    a string that the source only interpolates or tests with \<^verbatim>\<open>IsNullOrEmpty\<close>
    is a plain \<open>string\<close>, where \<^verbatim>\<open>null\<close> and the empty string behave alike;
  \<^item> \<^verbatim>\<open>int\<close> is a 32-bit word read as two's complement.
\<close>

subsection \<open>Data\<close>

type_synonym int32 = "32 word"

text \<open>
  Modelled from the spec: the declaration of the enum \<^verbatim>\<open>SignalerMessage.WireMessageType\<close>
  is not part of the sources at hand. The source names its values \<^verbatim>\<open>Offer\<close>,
  \<^verbatim>\<open>Answer\<close> and \<^verbatim>\<open>Ice\<close>; every other value of the enum is \<open>Unrecognized\<close>.
\<close>

datatype WireMessageType = Offer | Answer | Ice | Unrecognized

text \<open>
  Modelled from the spec: the class \<^verbatim>\<open>SignalerMessage\<close> is declared elsewhere; the
  source reads and writes exactly these three fields.
\<close>

record SignalerMessage =
  MessageType :: WireMessageType
  Data :: "string option"
  IceDataSeparator :: string

text \<open>The fields of \<^verbatim>\<open>NodeDssSignaler\<close>, public and private.\<close>

record signaler =
  AutoLogErrors :: bool
  LocalPeerId :: string
  RemotePeerId :: string
  HttpServerAddress :: string
  PollTimeMs :: real
  timeSincePollMs :: real
  lastGetComplete :: bool

text \<open>The field initialisers of the class.\<close>

definition new_signaler :: signaler where
  "new_signaler =
     \<lparr>AutoLogErrors = True, LocalPeerId = '''', RemotePeerId = '''',
      HttpServerAddress = ''http://127.0.0.1:3000/'', PollTimeMs = 500,
      timeSincePollMs = 0, lastGetComplete = True\<rparr>"

text \<open>What the code reads of a finished \<^verbatim>\<open>UnityWebRequest\<close>.\<close>

record UnityWebRequest =
  isNetworkError :: bool
  isHttpError :: bool
  downloadHandler_text :: string
  www_error :: string

datatype exn =
    ArgumentNullException
  | ArgumentException
  | NullReferenceException
  | IndexOutOfRangeException
  | FormatException
  | OverflowException

text \<open>
  The calls to \<^verbatim>\<open>Debug.Log\<close> and \<^verbatim>\<open>Debug.LogError\<close>, one constructor for each
  call in the source, with the values its message is built from.
\<close>

datatype log_entry =
    FailureSendingMessage string
  | ReceivedSdpMessage WireMessageType "string option"
  | UnknownMessage WireMessageType "string option"
  | FailedToDeserializeJson string
  | NetworkErrorTryingToSend string string

text \<open>
  Everything the object does to the outside: the console, the native peer connection
  (\<^verbatim>\<open>_nativePeer\<close>, assumed to be set and its methods to return normally) and the web
  requests it sends. \<open>SendGet url\<close> is \<^verbatim>\<open>UnityWebRequest.Get(url).SendWebRequest()\<close>;
  \<open>SendPost url msg\<close> is the POST request whose body is the JSON text of \<open>msg\<close>.
\<close>

datatype effect =
    DebugLog log_entry
  | DebugLogError log_entry
  | SetRemoteDescription string "string option"
  | CreateAnswer
  | AddIceCandidate string int32 string
  | SendGet string
  | SendPost string SignalerMessage

subsection \<open>The poll scheduler: \<^verbatim>\<open>Update\<close>\<close>

text \<open>
  The first part of the coroutine \<^verbatim>\<open>CO_GetAndProcessFromServer\<close>, which
  \<^verbatim>\<open>StartCoroutine\<close> runs at once up to the \<^verbatim>\<open>yield return\<close>: it builds the
  request and sends it.
\<close>

definition CO_GetAndProcessFromServer_begin :: "signaler \<Rightarrow> effect list" where
  "CO_GetAndProcessFromServer_begin s =
     [SendGet (HttpServerAddress s @ ''data/'' @ LocalPeerId s)]"

text \<open>\<^verbatim>\<open>Update\<close>, with \<^verbatim>\<open>Time.deltaTime\<close> (in seconds) as its argument.\<close>

definition Update :: "real \<Rightarrow> signaler \<Rightarrow> effect list \<times> signaler" where
  "Update deltaTime s =
     (if timeSincePollMs s \<le> PollTimeMs s
      then ([], s\<lparr>timeSincePollMs := timeSincePollMs s + deltaTime * 1000\<rparr>)
      else if \<not> lastGetComplete s
      then ([], s)
      else
        (let s1 = s\<lparr>timeSincePollMs := 0\<rparr>;
             s2 = s1\<lparr>lastGetComplete := False\<rparr>
         in (CO_GetAndProcessFromServer_begin s2, s2)))"

fun is_fetch :: "effect \<Rightarrow> bool" where
  "is_fetch (SendGet url) = True"
| "is_fetch e = False"

definition fetches :: "effect list \<Rightarrow> nat" where
  "fetches es = length (filter is_fetch es)"

subsection \<open>Library functions of .NET used by the source\<close>

text \<open>
  \<^verbatim>\<open>str.Split(new string[] { sep }, StringSplitOptions.RemoveEmptyEntries)\<close>.
  The library scans \<open>str\<close> from left to right; where \<open>sep\<close> occurs it cuts, and goes
  on behind the occurrence. \<open>split_from sep cur rest\<close> is that scan, \<open>cur\<close> being the
  piece read since the last cut.
\<close>

fun split_from :: "string \<Rightarrow> string \<Rightarrow> string \<Rightarrow> string list" where
  "split_from sep cur [] = [cur]"
| "split_from sep cur (c # cs) =
     (if take (length sep) (c # cs) = sep
      then cur # split_from sep [] (drop (length sep - 1) cs)
      else split_from sep (cur @ [c]) cs)"

text \<open>
  An empty string has no pieces. A separator that is \<^verbatim>\<open>null\<close> or empty is skipped by
  the library, so that nothing is cut. Empty pieces are removed at the end.
\<close>

definition Split_RemoveEmptyEntries :: "string \<Rightarrow> string \<Rightarrow> string list" where
  "Split_RemoveEmptyEntries str sep =
     (if str = [] then []
      else if sep = [] then [str]
      else filter (\<lambda>piece. piece \<noteq> []) (split_from sep [] str))"

text \<open>
  \<^verbatim>\<open>int.Parse\<close> and the formatting of an \<^verbatim>\<open>int\<close> in an interpolated string, for a
  culture that writes numbers with the ASCII digits and the signs \<^verbatim>\<open>-\<close> and
  \<^verbatim>\<open>+\<close>. \<^verbatim>\<open>int.Parse\<close> accepts white space, an optional sign, digits and white
  space; it throws \<^verbatim>\<open>FormatException\<close> on any other text and
  \<^verbatim>\<open>OverflowException\<close> on a number that does not fit 32 bits.
\<close>

definition is_digit :: "char \<Rightarrow> bool" where
  "is_digit c = (48 \<le> (of_char c :: nat) \<and> (of_char c :: nat) \<le> 57)"

definition is_white :: "char \<Rightarrow> bool" where
  "is_white c =
     ((of_char c :: nat) = 32 \<or> 9 \<le> (of_char c :: nat) \<and> (of_char c :: nat) \<le> 13)"

definition digit_value :: "char \<Rightarrow> nat" where
  "digit_value c = of_char c - 48"

definition digit_char :: "nat \<Rightarrow> char" where
  "digit_char d = char_of (48 + d)"

text \<open>
  \<open>digits_value\<close> reads a string of digits as a decimal number; \<open>digits_of\<close> writes a
  number that is not negative in decimal digits.
\<close>

definition digits_value :: "string \<Rightarrow> int" where
  "digits_value ds = foldl (\<lambda>acc c. 10 * acc + int (digit_value c)) 0 ds"

function digits_of :: "int \<Rightarrow> string" where
  "digits_of n =
     (if n < 10 then [digit_char (nat n)]
      else digits_of (n div 10) @ [digit_char (nat (n mod 10))])"
  by pat_completeness auto
termination
  by (relation "measure nat") auto

declare digits_of.simps [simp del]

definition Trim_white :: "string \<Rightarrow> string" where
  "Trim_white str = rev (dropWhile is_white (rev (dropWhile is_white str)))"

definition int_Parse :: "string \<Rightarrow> exn + int32" where
  "int_Parse str =
     (let t = Trim_white str;
          negative = (t \<noteq> [] \<and> hd t = CHR ''-'');
          signed = (t \<noteq> [] \<and> (hd t = CHR ''-'' \<or> hd t = CHR ''+''));
          ds = (if signed then tl t else t)
      in if ds = [] \<or> \<not> list_all is_digit ds then Inl FormatException
         else
           (let v = (if negative then - digits_value ds else digits_value ds)
            in if - (2 ^ 31) \<le> v \<and> v < 2 ^ 31 then Inr (word_of_int v)
               else Inl OverflowException))"

definition int_ToString :: "int32 \<Rightarrow> string" where
  "int_ToString i =
     (if sint i < 0 then CHR ''-'' # digits_of (- sint i) else digits_of (sint i))"

text \<open>\<^verbatim>\<open>str.EndsWith(suffix)\<close>, compared character by character.\<close>

definition EndsWith :: "string \<Rightarrow> string \<Rightarrow> bool" where
  "EndsWith str suffix =
     (length suffix \<le> length str \<and> drop (length str - length suffix) str = suffix)"

subsection \<open>\<^verbatim>\<open>Start\<close>\<close>

text \<open>
  \<^verbatim>\<open>Start\<close>, with \<^verbatim>\<open>SystemInfo.deviceUniqueIdentifier\<close> as its argument.
  \<^verbatim>\<open>string.IsNullOrEmpty\<close> is the test for the empty string here.
\<close>

definition Start :: "string \<Rightarrow> signaler \<Rightarrow> exn + signaler" where
  "Start deviceUniqueIdentifier s =
     (if HttpServerAddress s = [] then Inl ArgumentNullException
      else
        (let s1 = (if \<not> EndsWith (HttpServerAddress s) ''/''
                   then s\<lparr>HttpServerAddress := HttpServerAddress s @ ''/''\<rparr> else s);
             s2 = (if LocalPeerId s1 = []
                   then s1\<lparr>LocalPeerId := deviceUniqueIdentifier\<rparr> else s1)
         in Inr s2))"

subsection \<open>Publishing: \<^verbatim>\<open>PostToServer\<close> and the three callbacks\<close>

text \<open>
  \<^verbatim>\<open>PostToServer\<close> up to its \<^verbatim>\<open>yield return\<close>, and what is left of it once the
  request has finished.
\<close>

definition PostToServer_begin :: "SignalerMessage \<Rightarrow> signaler \<Rightarrow> effect list" where
  "PostToServer_begin msg s =
     [SendPost (HttpServerAddress s @ ''data/'' @ RemotePeerId s) msg]"

definition PostToServer_resume :: "UnityWebRequest \<Rightarrow> signaler \<Rightarrow> effect list" where
  "PostToServer_resume www s =
     (if AutoLogErrors s \<and> (isNetworkError www \<or> isHttpError www)
      then [DebugLog (FailureSendingMessage (www_error www))]
      else [])"

definition ice_message :: "string \<Rightarrow> int32 \<Rightarrow> string \<Rightarrow> SignalerMessage" where
  "ice_message candidate sdpMlineIndex sdpMid =
     \<lparr>MessageType = Ice,
      Data = Some (candidate @ ''|'' @ int_ToString sdpMlineIndex @ ''|'' @ sdpMid),
      IceDataSeparator = ''|''\<rparr>"

definition OnIceCandiateReadyToSend ::
    "string \<Rightarrow> int32 \<Rightarrow> string \<Rightarrow> signaler \<Rightarrow> effect list" where
  "OnIceCandiateReadyToSend candidate sdpMlineIndex sdpMid s =
     PostToServer_begin (ice_message candidate sdpMlineIndex sdpMid) s"

text \<open>
  The two other callbacks leave \<^verbatim>\<open>IceDataSeparator\<close> unset, which is \<^verbatim>\<open>null\<close>,
  the empty string of the model.
\<close>

definition OnSdpOfferReadyToSend :: "string option \<Rightarrow> signaler \<Rightarrow> effect list" where
  "OnSdpOfferReadyToSend offer s =
     PostToServer_begin \<lparr>MessageType = Offer, Data = offer, IceDataSeparator = []\<rparr> s"

definition OnSdpAnswerReadyToSend :: "string option \<Rightarrow> signaler \<Rightarrow> effect list" where
  "OnSdpAnswerReadyToSend answer s =
     PostToServer_begin \<lparr>MessageType = Answer, Data = answer, IceDataSeparator = []\<rparr> s"

subsection \<open>Fetching: the rest of \<^verbatim>\<open>CO_GetAndProcessFromServer\<close>\<close>

text \<open>
  \<^verbatim>\<open>JsonUtility.FromJson\<close> belongs to the engine. It is a parameter of the model: a
  function from the text to one of its three outcomes, an exception, \<^verbatim>\<open>null\<close> or an
  object.
\<close>

datatype json_result = JsonThrows | JsonNull | JsonObject SignalerMessage

datatype completion = Finished | Threw exn

text \<open>
  The \<^verbatim>\<open>Ice\<close> case of the switch. The arguments of \<^verbatim>\<open>AddIceCandidate\<close> are
  evaluated from left to right: \<^verbatim>\<open>parts[0]\<close>, \<^verbatim>\<open>int.Parse(parts[1])\<close>,
  \<^verbatim>\<open>parts[2]\<close>; an index beyond the array throws.
\<close>

definition add_ice_candidate :: "SignalerMessage \<Rightarrow> exn + effect" where
  "add_ice_candidate msg =
     (case Data msg of
        None \<Rightarrow> Inl NullReferenceException
      | Some d \<Rightarrow>
          (let parts = Split_RemoveEmptyEntries d (IceDataSeparator msg)
           in if length parts \<le> 0 then Inl IndexOutOfRangeException
              else if length parts \<le> 1 then Inl IndexOutOfRangeException
              else
                (case int_Parse (parts ! 1) of
                   Inl e \<Rightarrow> Inl e
                 | Inr i \<Rightarrow>
                     if length parts \<le> 2 then Inl IndexOutOfRangeException
                     else Inr (AddIceCandidate (parts ! 0) i (parts ! 2)))))"

text \<open>The body of \<^verbatim>\<open>if (msg != null)\<close>: the log line and the switch.\<close>

definition process_message :: "SignalerMessage \<Rightarrow> completion \<times> effect list" where
  "process_message msg =
     (let received = DebugLog (ReceivedSdpMessage (MessageType msg) (Data msg))
      in case MessageType msg of
           Offer \<Rightarrow>
             (Finished, [received, SetRemoteDescription ''offer'' (Data msg), CreateAnswer])
         | Answer \<Rightarrow>
             (Finished, [received, SetRemoteDescription ''answer'' (Data msg)])
         | Ice \<Rightarrow>
             (case add_ice_candidate msg of
                Inl e \<Rightarrow> (Threw e, [received])
              | Inr call \<Rightarrow> (Finished, [received, call]))
         | Unrecognized \<Rightarrow>
             (Finished, [received, DebugLog (UnknownMessage (MessageType msg) (Data msg))]))"

text \<open>
  The coroutine from its \<^verbatim>\<open>yield return\<close> to its end, given the finished request.
  An exception leaves the coroutine at once, so the assignment
  \<^verbatim>\<open>lastGetComplete = true\<close> of its last line is reached by \<open>Finished\<close> runs only.
  The engine drops a coroutine that threw and writes the exception to the console; that
  line is the engine's and is not among the effects of the object.
\<close>

definition CO_GetAndProcessFromServer_resume ::
    "(string \<Rightarrow> json_result) \<Rightarrow> UnityWebRequest \<Rightarrow> signaler
      \<Rightarrow> completion \<times> effect list \<times> signaler" where
  "CO_GetAndProcessFromServer_resume FromJson www s =
     (if \<not> isNetworkError www \<and> \<not> isHttpError www
      then
        (let json = downloadHandler_text www
         in case FromJson json of
              JsonThrows \<Rightarrow> (Threw ArgumentException, [], s)
            | JsonObject msg \<Rightarrow>
                (case process_message msg of
                   (Finished, es) \<Rightarrow> (Finished, es, s\<lparr>lastGetComplete := True\<rparr>)
                 | (Threw e, es) \<Rightarrow> (Threw e, es, s))
            | JsonNull \<Rightarrow>
                (if AutoLogErrors s
                 then (Finished, [DebugLogError (FailedToDeserializeJson json)],
                       s\<lparr>lastGetComplete := True\<rparr>)
                 else (Finished, [], s\<lparr>lastGetComplete := True\<rparr>)))
      else if AutoLogErrors s \<and> isNetworkError www
      then (Finished,
            [DebugLogError (NetworkErrorTryingToSend (HttpServerAddress s) (www_error www))],
            s\<lparr>lastGetComplete := True\<rparr>)
      else (Finished, [], s\<lparr>lastGetComplete := True\<rparr>))"

subsection \<open>The object driven by the engine\<close>

text \<open>
  The engine calls \<^verbatim>\<open>Update\<close> with the time of the last frame and resumes the fetch
  coroutine when its request has finished. \<open>suspended\<close> counts the fetch coroutines
  that wait at their \<^verbatim>\<open>yield return\<close>, that is, the fetches in flight; \<open>performed\<close>
  is everything done so far. A request can only finish when one is in flight: a
  \<open>GetFinished\<close> with no suspended coroutine changes nothing.
\<close>

record engine =
  object :: signaler
  suspended :: nat
  performed :: "effect list"

datatype event = Tick real | GetFinished UnityWebRequest

fun step :: "(string \<Rightarrow> json_result) \<Rightarrow> engine \<Rightarrow> event \<Rightarrow> engine" where
  "step FromJson g (Tick deltaTime) =
     (case Update deltaTime (object g) of
        (es, s) \<Rightarrow>
          \<lparr>object = s, suspended = suspended g + fetches es, performed = performed g @ es\<rparr>)"
| "step FromJson g (GetFinished www) =
     (if suspended g = 0 then g
      else
        (case CO_GetAndProcessFromServer_resume FromJson www (object g) of
           (c, es, s) \<Rightarrow>
             \<lparr>object = s, suspended = suspended g - 1, performed = performed g @ es\<rparr>))"

definition run :: "(string \<Rightarrow> json_result) \<Rightarrow> engine \<Rightarrow> event list \<Rightarrow> engine" where
  "run FromJson g evs = foldl (step FromJson) g evs"

text \<open>The engine around an object on which nothing has run yet.\<close>

definition engine_of :: "signaler \<Rightarrow> engine" where
  "engine_of s = \<lparr>object = s, suspended = 0, performed = []\<rparr>"

text \<open>The states a run goes through, the first and the last one included.\<close>

fun visited :: "(string \<Rightarrow> json_result) \<Rightarrow> engine \<Rightarrow> event list \<Rightarrow> engine list" where
  "visited FromJson g [] = [g]"
| "visited FromJson g (e # evs) = g # visited FromJson (step FromJson g e) evs"

text \<open>
  The invariant that ties the flag \<^verbatim>\<open>lastGetComplete\<close> to the fetches in flight: there
  is at most one, and none when the flag is set.
\<close>

definition guard_agrees :: "engine \<Rightarrow> bool" where
  "guard_agrees g =
     (suspended g \<le> 1 \<and> (if lastGetComplete (object g) then suspended g = 0 else True))"

subsection \<open>Concrete objects, requests and messages\<close>

text \<open>An object whose poll is due while its last fetch is still in flight.\<close>

definition waiting_signaler :: signaler where
  "waiting_signaler = new_signaler\<lparr>timeSincePollMs := 600, lastGetComplete := False\<rparr>"

text \<open>An object whose poll is due, with no fetch in flight.\<close>

definition due_signaler :: signaler where
  "due_signaler = new_signaler\<lparr>timeSincePollMs := 600\<rparr>"

definition ok_www :: "string \<Rightarrow> UnityWebRequest" where
  "ok_www body =
     \<lparr>isNetworkError = False, isHttpError = False, downloadHandler_text = body,
      www_error = []\<rparr>"

definition not_found_www :: UnityWebRequest where
  "not_found_www =
     \<lparr>isNetworkError = False, isHttpError = True, downloadHandler_text = [],
      www_error = ''HTTP/1.1 404 Not Found''\<rparr>"

definition server_error_www :: UnityWebRequest where
  "server_error_www =
     \<lparr>isNetworkError = False, isHttpError = True, downloadHandler_text = [],
      www_error = ''HTTP/1.1 500 Internal Server Error''\<rparr>"

definition unreachable_www :: UnityWebRequest where
  "unreachable_www =
     \<lparr>isNetworkError = True, isHttpError = False, downloadHandler_text = [],
      www_error = ''Cannot connect to destination host''\<rparr>"

text \<open>An \<^verbatim>\<open>Ice\<close> message whose data has two fields only.\<close>

definition short_ice_message :: SignalerMessage where
  "short_ice_message =
     \<lparr>MessageType = Ice, Data = Some ''candidate:1 1 UDP...|0'', IceDataSeparator = ''|''\<rparr>"

text \<open>An object as a host configures it, with an address that lacks the final slash.\<close>

definition configured_signaler :: signaler where
  "configured_signaler =
     new_signaler\<lparr>HttpServerAddress := ''http://relay:3000'', LocalPeerId := ''alice'',
       RemotePeerId := ''bob''\<rparr>"

text \<open>An object configured with an address that ends with two slashes.\<close>

definition doubled_signaler :: signaler where
  "doubled_signaler =
     new_signaler\<lparr>HttpServerAddress := ''http://relay:3000//'', LocalPeerId := ''alice'',
       RemotePeerId := ''bob''\<rparr>"

section \<open>The poll scheduler\<close>

subsection \<open>One call of \<^verbatim>\<open>Update\<close>\<close>

lemma fetches_append: "fetches (es @ fs) = fetches es + fetches fs"
  by (simp add: fetches_def)

lemma fetches_Update:
  "fetches (fst (Update dt s)) =
     (if PollTimeMs s < timeSincePollMs s \<and> lastGetComplete s then 1 else 0)"
  by (simp add: Update_def fetches_def CO_GetAndProcessFromServer_begin_def Let_def)

lemma guard_Update:
  "lastGetComplete (snd (Update dt s)) =
     (lastGetComplete s \<and> timeSincePollMs s \<le> PollTimeMs s)"
  by (auto simp add: Update_def Let_def)

text \<open>
  C3, as the code has it. A call of \<^verbatim>\<open>Update\<close> does one of three things. While the
  accumulator is at most the poll interval, it adds the elapsed time, in milliseconds, and
  does nothing else. Once the accumulator exceeds the interval, nothing is added any more:
  with a fetch in flight the call changes nothing, and the accumulator keeps its value;
  with no fetch in flight the call sets the accumulator to zero, marks a fetch as in
  flight and sends the GET request for the local peer.
\<close>

theorem Update_tick:
  "(timeSincePollMs s \<le> PollTimeMs s \<longrightarrow>
      Update dt s = ([], s\<lparr>timeSincePollMs := timeSincePollMs s + dt * 1000\<rparr>)) \<and>
   (PollTimeMs s < timeSincePollMs s \<and> \<not> lastGetComplete s \<longrightarrow> Update dt s = ([], s)) \<and>
   (PollTimeMs s < timeSincePollMs s \<and> lastGetComplete s \<longrightarrow>
      Update dt s =
        ([SendGet (HttpServerAddress s @ ''data/'' @ LocalPeerId s)],
         s\<lparr>timeSincePollMs := 0, lastGetComplete := False\<rparr>))"
  by (simp add: Update_def CO_GetAndProcessFromServer_begin_def Let_def)

theorem Update_tick_witness:
  "timeSincePollMs new_signaler \<le> PollTimeMs new_signaler \<and>
   Update (1 / 10) new_signaler = ([], new_signaler\<lparr>timeSincePollMs := 100\<rparr>) \<and>
   PollTimeMs waiting_signaler < timeSincePollMs waiting_signaler \<and>
   \<not> lastGetComplete waiting_signaler \<and>
   Update (1 / 10) waiting_signaler = ([], waiting_signaler) \<and>
   PollTimeMs due_signaler < timeSincePollMs due_signaler \<and>
   lastGetComplete due_signaler \<and>
   Update (1 / 10) due_signaler =
     ([SendGet ''http://127.0.0.1:3000/data/''],
      due_signaler\<lparr>timeSincePollMs := 0, lastGetComplete := False\<rparr>)"
  using Update_tick [of new_signaler "1 / 10"] Update_tick [of waiting_signaler "1 / 10"]
    Update_tick [of due_signaler "1 / 10"]
  by (simp add: new_signaler_def waiting_signaler_def due_signaler_def)

text \<open>
  C3 as the spec words it fails: the accumulator of \<open>waiting_signaler\<close> (600 ms) has
  reached the interval (500 ms) and a fetch is in flight, so the claim has the tick set
  the accumulator to zero. The code leaves the object as it is: the accumulator stays at
  600 ms, and the elapsed time of that tick is not added either.
\<close>

theorem Update_tick_counterexample:
  "PollTimeMs waiting_signaler \<le> timeSincePollMs waiting_signaler \<and>
   \<not> lastGetComplete waiting_signaler \<and>
   timeSincePollMs (snd (Update (1 / 50) waiting_signaler)) = 600 \<and>
   timeSincePollMs (snd (Update (1 / 50) waiting_signaler)) \<noteq> 0"
  by (simp add: Update_def waiting_signaler_def new_signaler_def)

subsection \<open>Runs\<close>

lemma resume_cases:
  "CO_GetAndProcessFromServer_resume F www s = (c, es, s') \<Longrightarrow>
     (c = Finished \<and> s' = s\<lparr>lastGetComplete := True\<rparr>) \<or> ((\<exists>e. c = Threw e) \<and> s' = s)"
  by (auto simp add: CO_GetAndProcessFromServer_resume_def Let_def
      split: if_splits json_result.splits prod.splits completion.splits)

lemma step_Tick_object: "object (step F g (Tick dt)) = snd (Update dt (object g))"
  by (simp split: prod.splits)

lemma step_Tick_suspended:
  "suspended (step F g (Tick dt)) = suspended g + fetches (fst (Update dt (object g)))"
  by (simp split: prod.splits)

lemma step_Tick_performed:
  "performed (step F g (Tick dt)) = performed g @ fst (Update dt (object g))"
  by (simp split: prod.splits)

lemma guard_agrees_step: "guard_agrees g \<Longrightarrow> guard_agrees (step F g e)"
proof (cases e)
  case (Tick dt)
  assume "guard_agrees g"
  then show ?thesis
    unfolding guard_agrees_def Tick step_Tick_object step_Tick_suspended fetches_Update
      guard_Update
    by (auto split: if_splits)
next
  case (GetFinished www)
  assume "guard_agrees g"
  then show ?thesis
    unfolding guard_agrees_def GetFinished
    by (auto split: prod.splits if_splits dest: resume_cases)
qed

lemma guard_agrees_visited:
  "guard_agrees g \<Longrightarrow> g' \<in> set (visited F g evs) \<Longrightarrow> guard_agrees g'"
  by (induction evs arbitrary: g) (auto dest: guard_agrees_step)

lemma guard_agrees_engine_of: "lastGetComplete s \<Longrightarrow> guard_agrees (engine_of s)"
  by (simp add: guard_agrees_def engine_of_def)

lemma only_completion_clears:
  assumes "\<not> lastGetComplete (object g)" and "lastGetComplete (object (step F g e))"
  shows "(\<exists>www. e = GetFinished www) \<and> 0 < suspended g \<and>
    suspended (step F g e) = suspended g - 1"
proof (cases e)
  case (Tick dt)
  with assms show ?thesis
    by (simp add: step_Tick_object guard_Update del: step.simps)
next
  case (GetFinished www)
  with assms show ?thesis
    by (auto split: if_splits prod.splits)
qed

lemma issue_sets_guard:
  assumes "suspended g < suspended (step F g e)"
  shows "\<not> lastGetComplete (object (step F g e))"
proof (cases e)
  case (Tick dt)
  with assms show ?thesis
    by (simp add: step_Tick_object step_Tick_suspended guard_Update fetches_Update
        del: step.simps split: if_splits)
next
  case (GetFinished www)
  with assms show ?thesis
    by (auto split: if_splits prod.splits)
qed

text \<open>
  C2. Take an object on which no fetch is in flight (\<^verbatim>\<open>lastGetComplete\<close> holds, as in
  a new object), and any sequence of calls of \<^verbatim>\<open>Update\<close> and of finished requests.
  In every state \<open>g\<close> the run goes through, and after any further event \<open>e\<close>, at most
  one fetch is in flight. A step that issues a fetch leaves the flag cleared, which
  marks the fetch as in flight. The flag is set again by no step but the one that
  resumes the coroutine of the one fetch in flight with its finished request, after which
  no fetch is in flight.
\<close>

theorem at_most_one_fetch_in_flight:
  assumes "lastGetComplete s" and "g \<in> set (visited FromJson (engine_of s) evs)"
  shows "suspended g \<le> 1 \<and> suspended (step FromJson g e) \<le> 1 \<and>
    (suspended g < suspended (step FromJson g e) \<longrightarrow>
       \<not> lastGetComplete (object (step FromJson g e))) \<and>
    (\<not> lastGetComplete (object g) \<and> lastGetComplete (object (step FromJson g e)) \<longrightarrow>
       (\<exists>www. e = GetFinished www) \<and> suspended g = 1 \<and> suspended (step FromJson g e) = 0)"
proof -
  have inv: "guard_agrees g"
    using assms guard_agrees_engine_of guard_agrees_visited by blast
  then have inv': "guard_agrees (step FromJson g e)"
    by (rule guard_agrees_step)
  have "suspended g = 1 \<and> suspended (step FromJson g e) = 0 \<and> (\<exists>www. e = GetFinished www)"
    if "\<not> lastGetComplete (object g)" "lastGetComplete (object (step FromJson g e))"
    using only_completion_clears [OF that] inv by (auto simp add: guard_agrees_def)
  with inv inv' issue_sets_guard [of g FromJson e] show ?thesis
    by (auto simp add: guard_agrees_def)
qed

theorem at_most_one_fetch_in_flight_witness:
  "lastGetComplete new_signaler \<and>
   run (\<lambda>json. JsonNull) (engine_of new_signaler) [Tick (3 / 5), Tick (3 / 5)]
     \<in> set (visited (\<lambda>json. JsonNull) (engine_of new_signaler)
         [Tick (3 / 5), Tick (3 / 5)]) \<and>
   suspended (run (\<lambda>json. JsonNull) (engine_of new_signaler)
     [Tick (3 / 5), Tick (3 / 5)]) = 1 \<and>
   suspended (step (\<lambda>json. JsonNull)
     (run (\<lambda>json. JsonNull) (engine_of new_signaler) [Tick (3 / 5), Tick (3 / 5)])
     (GetFinished not_found_www)) = 0 \<and>
   lastGetComplete (object (step (\<lambda>json. JsonNull)
     (run (\<lambda>json. JsonNull) (engine_of new_signaler) [Tick (3 / 5), Tick (3 / 5)])
     (GetFinished not_found_www)))"
  using at_most_one_fetch_in_flight [of new_signaler
      "run (\<lambda>json. JsonNull) (engine_of new_signaler) [Tick (3 / 5), Tick (3 / 5)]"
      "\<lambda>json. JsonNull" "[Tick (3 / 5), Tick (3 / 5)]" "GetFinished not_found_www"]
  by (simp add: run_def engine_of_def new_signaler_def Update_def fetches_def
      CO_GetAndProcessFromServer_begin_def CO_GetAndProcessFromServer_resume_def
      not_found_www_def Let_def)

subsection \<open>Steps that issue no fetch\<close>

lemma add_ice_candidate_no_fetch: "add_ice_candidate msg = Inr call \<Longrightarrow> \<not> is_fetch call"
  by (auto simp add: add_ice_candidate_def Let_def split: option.splits if_splits sum.splits)

lemma fetches_process_message: "process_message msg = (c, es) \<Longrightarrow> fetches es = 0"
  by (auto simp add: process_message_def fetches_def Let_def
      split: WireMessageType.splits sum.splits dest: add_ice_candidate_no_fetch)

lemma fetches_resume:
  "fetches (fst (snd (CO_GetAndProcessFromServer_resume F www s))) = 0"
  by (auto simp add: CO_GetAndProcessFromServer_resume_def Let_def
      split: json_result.splits prod.splits completion.splits
      dest: fetches_process_message) (simp_all add: fetches_def)

lemma step_no_fetch:
  assumes "timeSincePollMs (object g) \<le> PollTimeMs (object g) \<or> \<not> lastGetComplete (object g)"
  shows "fetches (performed (step F g e)) = fetches (performed g)"
proof (cases e)
  case (Tick dt)
  with assms show ?thesis
    by (auto simp add: step_Tick_performed fetches_append fetches_Update simp del: step.simps)
next
  case (GetFinished www)
  then show ?thesis
    using fetches_resume [of F www "object g"]
    by (auto simp add: fetches_append split: prod.splits)
qed

lemma run_Cons: "run F g (e # evs) = run F (step F g e) evs"
  by (simp add: run_def)

lemma run_Nil: "run F g [] = g"
  by (simp add: run_def)

lemma idle_run_no_fetch:
  "\<forall>g' \<in> set (visited F g evs). timeSincePollMs (object g') \<le> PollTimeMs (object g') \<Longrightarrow>
   fetches (performed (run F g evs)) = fetches (performed g)"
proof (induction evs arbitrary: g)
  case Nil
  show ?case by (simp add: run_Nil)
next
  case (Cons e evs)
  from Cons.prems have here: "timeSincePollMs (object g) \<le> PollTimeMs (object g)"
    and later: "\<forall>g' \<in> set (visited F (step F g e) evs).
      timeSincePollMs (object g') \<le> PollTimeMs (object g')"
    by simp_all
  have "fetches (performed (run F (step F g e) evs)) = fetches (performed (step F g e))"
    using later by (rule Cons.IH)
  also have "\<dots> = fetches (performed g)"
    using here by (simp add: step_no_fetch del: step.simps)
  finally show ?case by (simp only: run_Cons)
qed

text \<open>
  C4. Take any run, of calls of \<^verbatim>\<open>Update\<close> with any elapsed times and of finished
  requests, from any state. If in every state the run goes through the accumulator is
  strictly below the poll interval, then the run issues no fetch: the number of GET
  requests performed at its end is the number performed at its start.
\<close>

theorem idle_ticks_never_fetch:
  assumes "\<forall>g' \<in> set (visited FromJson g evs).
      timeSincePollMs (object g') < PollTimeMs (object g')"
  shows "fetches (performed (run FromJson g evs)) = fetches (performed g)"
proof -
  from assms have "\<forall>g' \<in> set (visited FromJson g evs).
      timeSincePollMs (object g') \<le> PollTimeMs (object g')"
    by (simp add: less_imp_le)
  then show ?thesis by (rule idle_run_no_fetch)
qed

theorem idle_ticks_never_fetch_witness:
  "list_all (\<lambda>g'. timeSincePollMs (object g') < PollTimeMs (object g'))
     (visited (\<lambda>json. JsonNull) (engine_of new_signaler)
        [Tick (1 / 10), Tick (1 / 10), Tick (1 / 10)]) \<and>
   timeSincePollMs (object (run (\<lambda>json. JsonNull) (engine_of new_signaler)
        [Tick (1 / 10), Tick (1 / 10), Tick (1 / 10)])) = 300 \<and>
   fetches (performed (run (\<lambda>json. JsonNull) (engine_of new_signaler)
        [Tick (1 / 10), Tick (1 / 10), Tick (1 / 10)])) = 0"
  using idle_ticks_never_fetch [of "\<lambda>json. JsonNull" "engine_of new_signaler"
      "[Tick (1 / 10), Tick (1 / 10), Tick (1 / 10)]"]
  by (simp add: run_def engine_of_def new_signaler_def Update_def fetches_def)

section \<open>The dispatcher\<close>

lemma resume_message:
  assumes "\<not> isNetworkError www" and "\<not> isHttpError www"
    and "FromJson (downloadHandler_text www) = JsonObject msg"
  shows "CO_GetAndProcessFromServer_resume FromJson www s =
    (case process_message msg of
       (Finished, es) \<Rightarrow> (Finished, es, s\<lparr>lastGetComplete := True\<rparr>)
     | (Threw e, es) \<Rightarrow> (Threw e, es, s))"
  using assms by (simp add: CO_GetAndProcessFromServer_resume_def)

subsection \<open>Offers and answers\<close>

text \<open>
  C6. When a fetch succeeds and its text decodes to a message, the coroutine logs the
  message and then: for an \<^verbatim>\<open>Offer\<close>, calls \<^verbatim>\<open>SetRemoteDescription("offer", Data)\<close>
  and, right after it, \<^verbatim>\<open>CreateAnswer()\<close>, with nothing in between; for an
  \<^verbatim>\<open>Answer\<close>, calls \<^verbatim>\<open>SetRemoteDescription("answer", Data)\<close> and nothing more. In
  both cases the coroutine ends normally and marks the fetch as complete.
\<close>

theorem offer_and_answer_routing:
  assumes "\<not> isNetworkError www" and "\<not> isHttpError www"
    and "FromJson (downloadHandler_text www) = JsonObject msg"
  shows
    "(MessageType msg = Offer \<longrightarrow>
        CO_GetAndProcessFromServer_resume FromJson www s =
          (Finished,
           [DebugLog (ReceivedSdpMessage Offer (Data msg)),
            SetRemoteDescription ''offer'' (Data msg), CreateAnswer],
           s\<lparr>lastGetComplete := True\<rparr>)) \<and>
     (MessageType msg = Answer \<longrightarrow>
        CO_GetAndProcessFromServer_resume FromJson www s =
          (Finished,
           [DebugLog (ReceivedSdpMessage Answer (Data msg)),
            SetRemoteDescription ''answer'' (Data msg)],
           s\<lparr>lastGetComplete := True\<rparr>))"
  using assms by (simp add: resume_message [where msg = msg] process_message_def)

theorem offer_and_answer_routing_witness:
  "CO_GetAndProcessFromServer_resume
     (\<lambda>json. JsonObject \<lparr>MessageType = Offer, Data = Some ''v=0...'', IceDataSeparator = []\<rparr>)
     (ok_www ''{...}'') waiting_signaler =
     (Finished,
      [DebugLog (ReceivedSdpMessage Offer (Some ''v=0...'')),
       SetRemoteDescription ''offer'' (Some ''v=0...''), CreateAnswer],
      waiting_signaler\<lparr>lastGetComplete := True\<rparr>) \<and>
   CO_GetAndProcessFromServer_resume
     (\<lambda>json. JsonObject \<lparr>MessageType = Answer, Data = Some ''v=0...'', IceDataSeparator = []\<rparr>)
     (ok_www ''{...}'') waiting_signaler =
     (Finished,
      [DebugLog (ReceivedSdpMessage Answer (Some ''v=0...'')),
       SetRemoteDescription ''answer'' (Some ''v=0...'')],
      waiting_signaler\<lparr>lastGetComplete := True\<rparr>)"
  using
    offer_and_answer_routing [of "ok_www ''{...}''"
      "\<lambda>json. JsonObject \<lparr>MessageType = Offer, Data = Some ''v=0...'', IceDataSeparator = []\<rparr>"
      "\<lparr>MessageType = Offer, Data = Some ''v=0...'', IceDataSeparator = []\<rparr>"
      waiting_signaler]
    offer_and_answer_routing [of "ok_www ''{...}''"
      "\<lambda>json. JsonObject \<lparr>MessageType = Answer, Data = Some ''v=0...'', IceDataSeparator = []\<rparr>"
      "\<lparr>MessageType = Answer, Data = Some ''v=0...'', IceDataSeparator = []\<rparr>"
      waiting_signaler]
  by (simp add: ok_www_def)

subsection \<open>Messages of another kind\<close>

text \<open>
  C7. When a fetch succeeds and its text decodes to a message whose kind is none of
  \<^verbatim>\<open>Offer\<close>, \<^verbatim>\<open>Answer\<close> and \<^verbatim>\<open>Ice\<close>, the coroutine writes two log lines, the
  one for every received message and the one for an unknown message, and calls nothing on
  the peer connection. It ends normally and marks the fetch as complete, so that the
  session goes on polling: the next call of \<^verbatim>\<open>Update\<close> that finds the accumulator
  above the interval sends the next GET request.
\<close>

theorem unrecognized_is_logged_and_dropped:
  assumes "\<not> isNetworkError www" and "\<not> isHttpError www"
    and "FromJson (downloadHandler_text www) = JsonObject msg"
    and "MessageType msg \<noteq> Offer" and "MessageType msg \<noteq> Answer"
    and "MessageType msg \<noteq> Ice"
  shows
    "CO_GetAndProcessFromServer_resume FromJson www s =
       (Finished,
        [DebugLog (ReceivedSdpMessage (MessageType msg) (Data msg)),
         DebugLog (UnknownMessage (MessageType msg) (Data msg))],
        s\<lparr>lastGetComplete := True\<rparr>) \<and>
     (PollTimeMs s < timeSincePollMs s \<longrightarrow>
        fst (Update dt (s\<lparr>lastGetComplete := True\<rparr>)) =
          [SendGet (HttpServerAddress s @ ''data/'' @ LocalPeerId s)])"
proof -
  from assms(4-6) have "MessageType msg = Unrecognized"
    by (cases "MessageType msg") simp_all
  with assms(1-3) show ?thesis
    by (simp add: resume_message [where msg = msg] process_message_def Update_def
        CO_GetAndProcessFromServer_begin_def)
qed

theorem unrecognized_is_logged_and_dropped_witness:
  "CO_GetAndProcessFromServer_resume
     (\<lambda>json. JsonObject
        \<lparr>MessageType = Unrecognized, Data = Some ''peer-7'', IceDataSeparator = []\<rparr>)
     (ok_www ''{...}'') waiting_signaler =
     (Finished,
      [DebugLog (ReceivedSdpMessage Unrecognized (Some ''peer-7'')),
       DebugLog (UnknownMessage Unrecognized (Some ''peer-7''))],
      waiting_signaler\<lparr>lastGetComplete := True\<rparr>) \<and>
   PollTimeMs waiting_signaler < timeSincePollMs waiting_signaler \<and>
   fst (Update (1 / 50) (waiting_signaler\<lparr>lastGetComplete := True\<rparr>)) =
     [SendGet ''http://127.0.0.1:3000/data/'']"
  using unrecognized_is_logged_and_dropped [of "ok_www ''{...}''"
      "\<lambda>json. JsonObject
         \<lparr>MessageType = Unrecognized, Data = Some ''peer-7'', IceDataSeparator = []\<rparr>"
      "\<lparr>MessageType = Unrecognized, Data = Some ''peer-7'', IceDataSeparator = []\<rparr>"
      waiting_signaler "1 / 50"]
  by (simp add: ok_www_def waiting_signaler_def new_signaler_def)

subsection \<open>Fetches and publishes that fail\<close>

text \<open>
  C8. A fetch that finishes with an HTTP error status and no network error, which is how
  the relay's "no data yet" (404) arrives, ends the coroutine normally with no effect at
  all: no line is logged, whatever \<^verbatim>\<open>AutoLogErrors\<close> is, nothing is called on the
  peer connection, and the fetch is marked as complete.
\<close>

theorem not_found_is_silent:
  assumes "isHttpError www" and "\<not> isNetworkError www"
  shows "CO_GetAndProcessFromServer_resume FromJson www s =
    (Finished, [], s\<lparr>lastGetComplete := True\<rparr>)"
  using assms by (simp add: CO_GetAndProcessFromServer_resume_def)

theorem not_found_is_silent_witness:
  "isHttpError not_found_www \<and> \<not> isNetworkError not_found_www \<and>
   AutoLogErrors waiting_signaler \<and>
   CO_GetAndProcessFromServer_resume (\<lambda>json. JsonNull) not_found_www waiting_signaler =
     (Finished, [], waiting_signaler\<lparr>lastGetComplete := True\<rparr>)"
  using not_found_is_silent [of not_found_www "\<lambda>json. JsonNull" waiting_signaler]
  by (simp add: not_found_www_def waiting_signaler_def new_signaler_def)

text \<open>
  C9 as the spec words it fails for a fetch: with \<^verbatim>\<open>AutoLogErrors\<close> on, a fetch that
  finishes with the status 500, a transport error of the claim, is not reported at all.
\<close>

theorem transport_errors_counterexample:
  "AutoLogErrors waiting_signaler \<and> isHttpError server_error_www \<and>
   fst (snd (CO_GetAndProcessFromServer_resume (\<lambda>json. JsonNull) server_error_www
     waiting_signaler)) = []"
  by (simp add: CO_GetAndProcessFromServer_resume_def server_error_www_def
      waiting_signaler_def new_signaler_def)

text \<open>
  C9, as the code has it. Let a request finish with a network error or an HTTP error
  status. If it was a publish, the coroutine logs one line when \<^verbatim>\<open>AutoLogErrors\<close> is
  on and does nothing else: it sends nothing again. If it was a fetch, the coroutine logs
  one error line when \<^verbatim>\<open>AutoLogErrors\<close> is on and the request has a network error,
  and logs nothing for an HTTP error status alone; it calls nothing on the peer
  connection, ends normally and marks the fetch as complete, so that the next call of
  \<^verbatim>\<open>Update\<close> that finds the accumulator above the interval sends the GET request
  again.
\<close>

theorem transport_errors:
  assumes "isNetworkError www \<or> isHttpError www"
  shows
    "PostToServer_resume www s =
       (if AutoLogErrors s then [DebugLog (FailureSendingMessage (www_error www))] else []) \<and>
     CO_GetAndProcessFromServer_resume FromJson www s =
       (Finished,
        if AutoLogErrors s \<and> isNetworkError www
        then [DebugLogError (NetworkErrorTryingToSend (HttpServerAddress s) (www_error www))]
        else [],
        s\<lparr>lastGetComplete := True\<rparr>) \<and>
     (PollTimeMs s < timeSincePollMs s \<longrightarrow>
        fst (Update dt (s\<lparr>lastGetComplete := True\<rparr>)) =
          [SendGet (HttpServerAddress s @ ''data/'' @ LocalPeerId s)])"
  using assms
  by (auto simp add: PostToServer_resume_def CO_GetAndProcessFromServer_resume_def Update_def
      CO_GetAndProcessFromServer_begin_def)

theorem transport_errors_witness:
  "(isNetworkError unreachable_www \<or> isHttpError unreachable_www) \<and>
   PostToServer_resume unreachable_www waiting_signaler =
     [DebugLog (FailureSendingMessage ''Cannot connect to destination host'')] \<and>
   CO_GetAndProcessFromServer_resume (\<lambda>json. JsonNull) unreachable_www waiting_signaler =
     (Finished,
      [DebugLogError (NetworkErrorTryingToSend ''http://127.0.0.1:3000/''
         ''Cannot connect to destination host'')],
      waiting_signaler\<lparr>lastGetComplete := True\<rparr>) \<and>
   fst (Update (1 / 50) (waiting_signaler\<lparr>lastGetComplete := True\<rparr>)) =
     [SendGet ''http://127.0.0.1:3000/data/'']"
  using transport_errors [of unreachable_www waiting_signaler "\<lambda>json. JsonNull" "1 / 50"]
  by (simp add: unreachable_www_def waiting_signaler_def new_signaler_def)

subsection \<open>Malformed candidates\<close>

lemma stalled_step:
  assumes "\<not> lastGetComplete (object g)" and "suspended g = 0"
  shows "\<not> lastGetComplete (object (step F g e)) \<and> suspended (step F g e) = 0 \<and>
    fetches (performed (step F g e)) = fetches (performed g)"
proof (cases e)
  case (Tick dt)
  with assms show ?thesis
    by (simp add: step_Tick_object step_Tick_suspended step_Tick_performed guard_Update
        fetches_Update fetches_append del: step.simps)
next
  case (GetFinished www)
  with assms show ?thesis by simp
qed

lemma stalled_run:
  "\<not> lastGetComplete (object g) \<Longrightarrow> suspended g = 0 \<Longrightarrow>
   fetches (performed (run F g evs)) = fetches (performed g)"
proof (induction evs arbitrary: g)
  case Nil
  show ?case by (simp add: run_Nil)
next
  case (Cons e evs)
  from stalled_step [OF Cons.prems, of F e]
  have "fetches (performed (run F (step F g e) evs)) = fetches (performed (step F g e))"
    and "fetches (performed (step F g e)) = fetches (performed g)"
    by (simp_all add: Cons.IH del: step.simps)
  then show ?case by (simp only: run_Cons)
qed

lemma malformed_ice_throws:
  assumes "Data msg = Some d"
    and "length (Split_RemoveEmptyEntries d (IceDataSeparator msg)) < 3 \<or>
      (\<exists>e. int_Parse (Split_RemoveEmptyEntries d (IceDataSeparator msg) ! 1) = Inl e)"
  shows "\<exists>e. add_ice_candidate msg = Inl e"
  using assms
  by (auto simp add: add_ice_candidate_def Let_def split: sum.splits)

text \<open>
  C1 does not hold of the code. Let a fetch, the one in flight, succeed with an
  \<^verbatim>\<open>Ice\<close> message whose data splits into fewer than three pieces, or whose second
  piece \<^verbatim>\<open>int.Parse\<close> rejects. Then the coroutine logs the received message and is
  left by an exception. It never reaches \<^verbatim>\<open>lastGetComplete = true\<close>: the flag stays
  cleared with no fetch in flight, and whatever calls of \<^verbatim>\<open>Update\<close> follow, no
  fetch is issued any more.
\<close>

theorem malformed_ice_stops_polling:
  assumes "\<not> isNetworkError www" and "\<not> isHttpError www"
    and "FromJson (downloadHandler_text www) = JsonObject msg"
    and "MessageType msg = Ice" and "Data msg = Some d"
    and "length (Split_RemoveEmptyEntries d (IceDataSeparator msg)) < 3 \<or>
      (\<exists>e. int_Parse (Split_RemoveEmptyEntries d (IceDataSeparator msg) ! 1) = Inl e)"
    and "\<not> lastGetComplete (object g)" and "suspended g = 1"
  shows "(\<exists>e. CO_GetAndProcessFromServer_resume FromJson www (object g) =
        (Threw e, [DebugLog (ReceivedSdpMessage Ice (Some d))], object g)) \<and>
    \<not> lastGetComplete (object (step FromJson g (GetFinished www))) \<and>
    fetches (performed (run FromJson (step FromJson g (GetFinished www)) evs)) =
      fetches (performed g)"
proof -
  obtain e where "add_ice_candidate msg = Inl e"
    using malformed_ice_throws [OF assms(5,6)] by blast
  with assms(4,5)
  have "process_message msg = (Threw e, [DebugLog (ReceivedSdpMessage Ice (Some d))])"
    by (simp add: process_message_def)
  with assms(1-3) have resume: "CO_GetAndProcessFromServer_resume FromJson www (object g) =
      (Threw e, [DebugLog (ReceivedSdpMessage Ice (Some d))], object g)"
    by (simp add: resume_message [where msg = msg])
  let ?g = "step FromJson g (GetFinished www)"
  from resume assms(7,8) have after: "\<not> lastGetComplete (object ?g)" "suspended ?g = 0"
    "fetches (performed ?g) = fetches (performed g)"
    by (simp_all add: fetches_append fetches_def)
  from stalled_run [OF after(1,2)] after(3)
  have "fetches (performed (run FromJson ?g evs)) = fetches (performed g)"
    by simp
  with resume after(1) show ?thesis by blast
qed

theorem malformed_ice_stops_polling_witness:
  "CO_GetAndProcessFromServer_resume (\<lambda>json. JsonObject short_ice_message) (ok_www ''{...}'')
      waiting_signaler =
     (Threw IndexOutOfRangeException,
      [DebugLog (ReceivedSdpMessage Ice (Some ''candidate:1 1 UDP...|0''))], waiting_signaler) \<and>
   \<not> lastGetComplete (object (step (\<lambda>json. JsonObject short_ice_message)
      \<lparr>object = waiting_signaler, suspended = 1, performed = []\<rparr>
      (GetFinished (ok_www ''{...}'')))) \<and>
   fetches (performed (run (\<lambda>json. JsonObject short_ice_message)
      (step (\<lambda>json. JsonObject short_ice_message)
         \<lparr>object = waiting_signaler, suspended = 1, performed = []\<rparr>
         (GetFinished (ok_www ''{...}'')))
      [Tick 1, Tick 1, Tick 1])) = 0"
proof -
  have parts: "Split_RemoveEmptyEntries ''candidate:1 1 UDP...|0'' ''|'' =
      [''candidate:1 1 UDP...'', ''0'']"
    by (simp add: Split_RemoveEmptyEntries_def)
  have zero: "int_Parse ''0'' = Inr 0"
    by code_simp
  have thrown: "CO_GetAndProcessFromServer_resume (\<lambda>json. JsonObject short_ice_message)
      (ok_www ''{...}'') waiting_signaler =
     (Threw IndexOutOfRangeException,
      [DebugLog (ReceivedSdpMessage Ice (Some ''candidate:1 1 UDP...|0''))], waiting_signaler)"
    by (simp add: CO_GetAndProcessFromServer_resume_def ok_www_def short_ice_message_def
        process_message_def add_ice_candidate_def parts zero)
  show ?thesis
    using malformed_ice_stops_polling [of "ok_www ''{...}''"
        "\<lambda>json. JsonObject short_ice_message" short_ice_message "''candidate:1 1 UDP...|0''"
        "\<lparr>object = waiting_signaler, suspended = 1, performed = []\<rparr>"
        "[Tick 1, Tick 1, Tick 1]"] thrown
    by (simp add: ok_www_def short_ice_message_def parts waiting_signaler_def new_signaler_def
        fetches_def)
qed

section \<open>The candidate fields\<close>

subsection \<open>Splitting at a separator of one character\<close>

lemma split_from_upto:
  "d \<notin> set xs \<Longrightarrow> split_from [d] cur (xs @ d # rest) = (cur @ xs) # split_from [d] [] rest"
  by (induction xs arbitrary: cur) auto

lemma split_from_end: "d \<notin> set xs \<Longrightarrow> split_from [d] cur xs = [cur @ xs]"
  by (induction xs arbitrary: cur) auto

lemma Split_three_fields:
  assumes "a \<noteq> []" "d \<notin> set a" "b \<noteq> []" "d \<notin> set b" "c \<noteq> []" "d \<notin> set c"
  shows "Split_RemoveEmptyEntries (a @ [d] @ b @ [d] @ c) [d] = [a, b, c]"
  using assms
  by (simp add: Split_RemoveEmptyEntries_def split_from_upto split_from_end)

subsection \<open>Writing and reading a number\<close>

lemma of_char_digit_char: "d < 10 \<Longrightarrow> (of_char (digit_char d) :: nat) = 48 + d"
  by (simp add: digit_char_def)

lemma is_digit_digit_char: "d < 10 \<Longrightarrow> is_digit (digit_char d)"
  by (simp add: is_digit_def of_char_digit_char)

lemma digit_value_digit_char: "d < 10 \<Longrightarrow> digit_value (digit_char d) = d"
  by (simp add: digit_value_def of_char_digit_char)

lemma digits_of_digits: "0 \<le> n \<Longrightarrow> list_all is_digit (digits_of n)"
proof (induction n rule: digits_of.induct)
  case (1 n)
  show ?case
  proof (cases "n < 10")
    case True
    with "1.prems" show ?thesis
      by (subst digits_of.simps) (simp add: is_digit_digit_char)
  next
    case False
    with "1.prems" "1.IH" have "list_all is_digit (digits_of (n div 10))"
      by simp
    moreover have "nat (n mod 10) < 10"
      by simp
    ultimately show ?thesis
      using False by (subst digits_of.simps) (simp add: is_digit_digit_char)
  qed
qed

lemma digits_of_not_empty: "digits_of n \<noteq> []"
  by (subst digits_of.simps) simp

lemma digits_value_snoc:
  "digits_value (ds @ [c]) = 10 * digits_value ds + int (digit_value c)"
  by (simp add: digits_value_def)

lemma digits_value_digits_of: "0 \<le> n \<Longrightarrow> digits_value (digits_of n) = n"
proof (induction n rule: digits_of.induct)
  case (1 n)
  show ?case
  proof (cases "n < 10")
    case True
    with "1.prems" show ?thesis
      by (subst digits_of.simps) (simp add: digits_value_def digit_value_digit_char)
  next
    case False
    with "1.prems" "1.IH" have "digits_value (digits_of (n div 10)) = n div 10"
      by simp
    moreover have "nat (n mod 10) < 10"
      by simp
    ultimately show ?thesis
      using False
      by (subst digits_of.simps) (simp add: digits_value_snoc digit_value_digit_char)
  qed
qed

lemma is_digit_plain:
  "is_digit c \<Longrightarrow> \<not> is_white c \<and> c \<noteq> CHR ''-'' \<and> c \<noteq> CHR ''+'' \<and> c \<noteq> CHR ''|''"
  by (auto simp add: is_digit_def is_white_def)

lemma not_white_minus: "\<not> is_white CHR ''-''"
  by (simp add: is_white_def)

lemma Trim_white_plain:
  assumes "t \<noteq> []" "\<not> is_white (hd t)" "\<not> is_white (last t)"
  shows "Trim_white t = t"
proof -
  from assms(1,2) have "dropWhile is_white t = t"
    by (cases t) simp_all
  moreover from assms(1,3) have "dropWhile is_white (rev t) = rev t"
    by (cases "rev t") (simp_all add: hd_rev [symmetric] del: rev_is_Nil_conv)
  ultimately show ?thesis
    by (simp add: Trim_white_def)
qed

lemma digits_hd_last:
  assumes "ds \<noteq> []" "list_all is_digit ds"
  shows "is_digit (hd ds) \<and> is_digit (last ds)"
  using assms by (simp add: list_all_iff)

lemma int_Parse_int_ToString: "int_Parse (int_ToString i) = Inr i"
proof (cases "sint i < 0")
  case True
  let ?ds = "digits_of (- sint i)"
  have ds: "?ds \<noteq> []" "list_all is_digit ?ds" "digits_value ?ds = - sint i"
    using True by (simp_all add: digits_of_not_empty digits_of_digits digits_value_digits_of)
  have "\<not> is_white (last (CHR ''-'' # ?ds))"
    using ds(1) digits_hd_last [OF ds(1,2)] is_digit_plain by simp
  then have trim: "Trim_white (CHR ''-'' # ?ds) = CHR ''-'' # ?ds"
    by (intro Trim_white_plain) (simp_all add: not_white_minus)
  have "- (2 ^ 31) \<le> sint i"
    using sint_ge [of i] by simp
  with True ds trim show ?thesis
    by (simp add: int_Parse_def int_ToString_def Let_def)
next
  case False
  let ?ds = "digits_of (sint i)"
  have ds: "?ds \<noteq> []" "list_all is_digit ?ds" "digits_value ?ds = sint i"
    using False by (simp_all add: digits_of_not_empty digits_of_digits digits_value_digits_of)
  note ends = digits_hd_last [OF ds(1,2)]
  have trim: "Trim_white ?ds = ?ds"
    using ds(1) ends is_digit_plain by (intro Trim_white_plain) blast+
  have unsigned: "hd ?ds \<noteq> CHR ''-''" "hd ?ds \<noteq> CHR ''+''"
    using ends is_digit_plain by blast+
  have "sint i < 2 ^ 31"
    using sint_lt [of i] by simp
  with False ds trim unsigned show ?thesis
    by (simp add: int_Parse_def int_ToString_def Let_def)
qed

lemma int_ToString_plain:
  "int_ToString i \<noteq> [] \<and> CHR ''|'' \<notin> set (int_ToString i)"
proof -
  have "CHR ''|'' \<notin> set (digits_of n)" if "0 \<le> n" for n
    using digits_of_digits [OF that] is_digit_plain by (auto simp add: list_all_iff)
  then show ?thesis
    by (simp add: int_ToString_def digits_of_not_empty)
qed

subsection \<open>From the sender to the receiver\<close>

text \<open>
  C5, as the code has it. Let the candidate string and the mid both be non-empty and free
  of the separator \<^verbatim>\<open>|\<close>, and let the line index be any \<^verbatim>\<open>int\<close>. Then the message
  that \<^verbatim>\<open>OnIceCandiateReadyToSend\<close> builds carries the three fields joined by
  \<^verbatim>\<open>|\<close>, and the receiver, splitting its data at its separator, calls
  \<^verbatim>\<open>AddIceCandidate\<close> with exactly the candidate, the line index and the mid of the
  sender.
\<close>

theorem ice_round_trip:
  assumes "candidate \<noteq> []" and "CHR ''|'' \<notin> set candidate"
    and "sdpMid \<noteq> []" and "CHR ''|'' \<notin> set sdpMid"
  shows "OnIceCandiateReadyToSend candidate sdpMlineIndex sdpMid s =
      [SendPost (HttpServerAddress s @ ''data/'' @ RemotePeerId s)
         (ice_message candidate sdpMlineIndex sdpMid)] \<and>
    Data (ice_message candidate sdpMlineIndex sdpMid) =
      Some (candidate @ ''|'' @ int_ToString sdpMlineIndex @ ''|'' @ sdpMid) \<and>
    add_ice_candidate (ice_message candidate sdpMlineIndex sdpMid) =
      Inr (AddIceCandidate candidate sdpMlineIndex sdpMid) \<and>
    process_message (ice_message candidate sdpMlineIndex sdpMid) =
      (Finished,
       [DebugLog (ReceivedSdpMessage Ice
          (Some (candidate @ ''|'' @ int_ToString sdpMlineIndex @ ''|'' @ sdpMid))),
        AddIceCandidate candidate sdpMlineIndex sdpMid])"
proof -
  have "Split_RemoveEmptyEntries
      (candidate @ ''|'' @ int_ToString sdpMlineIndex @ ''|'' @ sdpMid) ''|'' =
      [candidate, int_ToString sdpMlineIndex, sdpMid]"
    using assms int_ToString_plain [of sdpMlineIndex] by (intro Split_three_fields) simp_all
  then have "add_ice_candidate (ice_message candidate sdpMlineIndex sdpMid) =
      Inr (AddIceCandidate candidate sdpMlineIndex sdpMid)"
    by (simp add: add_ice_candidate_def ice_message_def int_Parse_int_ToString)
  then show ?thesis
    by (simp add: process_message_def OnIceCandiateReadyToSend_def PostToServer_begin_def)
      (simp add: ice_message_def)
qed

theorem ice_round_trip_witness:
  "Data (ice_message ''candidate:1 1 UDP...'' 0 ''audio'') =
     Some ''candidate:1 1 UDP...|0|audio'' \<and>
   add_ice_candidate (ice_message ''candidate:1 1 UDP...'' 0 ''audio'') =
     Inr (AddIceCandidate ''candidate:1 1 UDP...'' 0 ''audio'')"
proof -
  have "int_ToString 0 = ''0''"
    by code_simp
  then show ?thesis
    using ice_round_trip [of "''candidate:1 1 UDP...''" "''audio''" 0 new_signaler]
    by simp
qed

text \<open>
  C5 as the spec words it fails: the empty candidate string does not contain the
  separator, yet its composite \<^verbatim>\<open>|0|audio\<close> splits into two pieces only, and the
  receiver is left by the exception of \<^verbatim>\<open>int.Parse("audio")\<close>.
\<close>

theorem ice_round_trip_counterexample:
  "CHR ''|'' \<notin> set [] \<and>
   add_ice_candidate (ice_message [] 0 ''audio'') = Inl FormatException \<and>
   add_ice_candidate (ice_message [] 0 ''audio'') \<noteq> Inr (AddIceCandidate [] 0 ''audio'')"
proof -
  have "int_ToString 0 = ''0''"
    by code_simp
  moreover have "Split_RemoveEmptyEntries ''|0|audio'' ''|'' = [''0'', ''audio'']"
    by (simp add: Split_RemoveEmptyEntries_def)
  moreover have "int_Parse ''audio'' = Inl FormatException"
    by code_simp
  ultimately show ?thesis
    by (simp add: add_ice_candidate_def ice_message_def)
qed

section \<open>The server address\<close>

lemma EndsWith_slash: "EndsWith a ''/'' = (a \<noteq> [] \<and> last a = CHR ''/'')"
proof (cases a rule: rev_cases)
  case Nil
  then show ?thesis by (simp add: EndsWith_def)
next
  case (snoc b c)
  then show ?thesis by (auto simp add: EndsWith_def)
qed

lemma EndsWith_butlast: "EndsWith a ''/'' \<Longrightarrow> butlast a @ ''/'' = a"
  using append_butlast_last_id [of a] by (simp add: EndsWith_slash)

lemma Start_address:
  assumes "Start d s = Inr s'"
  shows "HttpServerAddress s \<noteq> [] \<and>
    HttpServerAddress s' =
      (if EndsWith (HttpServerAddress s) ''/'' then HttpServerAddress s
       else HttpServerAddress s @ ''/'') \<and>
    RemotePeerId s' = RemotePeerId s"
  using assms by (auto simp add: Start_def Let_def split: if_splits)

lemma Update_config:
  "HttpServerAddress (snd (Update dt s)) = HttpServerAddress s \<and>
   LocalPeerId (snd (Update dt s)) = LocalPeerId s \<and>
   RemotePeerId (snd (Update dt s)) = RemotePeerId s"
  by (simp add: Update_def Let_def)

lemma resume_config:
  "HttpServerAddress (snd (snd (CO_GetAndProcessFromServer_resume F www s))) =
     HttpServerAddress s \<and>
   LocalPeerId (snd (snd (CO_GetAndProcessFromServer_resume F www s))) = LocalPeerId s \<and>
   RemotePeerId (snd (snd (CO_GetAndProcessFromServer_resume F www s))) = RemotePeerId s"
  using resume_cases [of F www s]
  by (cases "CO_GetAndProcessFromServer_resume F www s") auto

lemma step_config:
  "HttpServerAddress (object (step F g e)) = HttpServerAddress (object g) \<and>
   LocalPeerId (object (step F g e)) = LocalPeerId (object g) \<and>
   RemotePeerId (object (step F g e)) = RemotePeerId (object g)"
proof (cases e)
  case (Tick dt)
  then show ?thesis
    by (simp add: step_Tick_object Update_config del: step.simps)
next
  case (GetFinished www)
  then show ?thesis
    using resume_config [of F www "object g"] by (auto split: prod.splits)
qed

lemma visited_config:
  "g' \<in> set (visited F g evs) \<Longrightarrow>
   HttpServerAddress (object g') = HttpServerAddress (object g) \<and>
   LocalPeerId (object g') = LocalPeerId (object g) \<and>
   RemotePeerId (object g') = RemotePeerId (object g)"
proof (induction evs arbitrary: g)
  case Nil
  then show ?case by simp
next
  case (Cons e evs)
  then show ?case
    using step_config [of F g e] by (auto simp del: step.simps)
qed

lemma EndsWith_append: "EndsWith (a @ suffix) suffix"
  by (simp add: EndsWith_def)

lemma butlast_single_slash:
  assumes "EndsWith a ''/''" and "\<not> EndsWith a ''//''"
  shows "\<not> EndsWith (butlast a) ''/''"
proof
  assume "EndsWith (butlast a) ''/''"
  then have "butlast (butlast a) @ ''/'' = butlast a"
    by (rule EndsWith_butlast)
  with EndsWith_butlast [OF assms(1)] have "a = butlast (butlast a) @ ''//''"
    by (metis append_Cons append_Nil append_assoc)
  then have "EndsWith a ''//''"
    using EndsWith_append [of "butlast (butlast a)" "''//''"] by simp
  with assms(2) show False ..
qed

text \<open>
  C10 as the spec words it fails: an address configured with two final slashes ends with
  a slash, so \<^verbatim>\<open>Start\<close> leaves it as it is, and the URLs of the fetch and of the
  publish have two slashes between the address and the path.
\<close>

theorem Start_normalises_address_counterexample:
  "Start ''device-1'' doubled_signaler = Inr doubled_signaler \<and>
   EndsWith (HttpServerAddress doubled_signaler) ''/'' \<and>
   CO_GetAndProcessFromServer_begin doubled_signaler =
     [SendGet ''http://relay:3000//data/alice''] \<and>
   PostToServer_begin short_ice_message doubled_signaler =
     [SendPost ''http://relay:3000//data/bob'' short_ice_message]"
  by (simp add: Start_def doubled_signaler_def new_signaler_def EndsWith_def
      CO_GetAndProcessFromServer_begin_def PostToServer_begin_def)

text \<open>
  C10, as the code has it. Let \<^verbatim>\<open>Start\<close> return normally, and let \<open>b\<close> be the
  configured address without its final slash, if it had one. Then the address ends with a
  slash afterwards: it is the configured address itself if that ended with a slash, the
  configured address with one slash appended otherwise, and \<^verbatim>\<open>Start\<close> changes it in
  no other way. No call of \<^verbatim>\<open>Update\<close> and no finished request changes it, so in
  every state \<open>g\<close> of every run that follows, every publish goes to the address,
  \<^verbatim>\<open>data/\<close> and the remote peer id, and every fetch to the address, \<^verbatim>\<open>data/\<close>
  and the local peer id. If the configured address did not end with two slashes, \<open>b\<close>
  ends with no slash and these URLs are \<open>b\<close>, \<^verbatim>\<open>/data/\<close> and the peer id: exactly
  one slash stands between \<open>b\<close> and the path.
\<close>

theorem Start_normalises_address:
  assumes "Start deviceUniqueIdentifier s = Inr s'"
    and "g \<in> set (visited FromJson (engine_of s') evs)"
    and "b = (if EndsWith (HttpServerAddress s) ''/'' then butlast (HttpServerAddress s)
              else HttpServerAddress s)"
  shows "EndsWith (HttpServerAddress s') ''/'' \<and>
    HttpServerAddress s' =
      (if EndsWith (HttpServerAddress s) ''/'' then HttpServerAddress s
       else HttpServerAddress s @ ''/'') \<and>
    HttpServerAddress s' = b @ ''/'' \<and>
    HttpServerAddress (object g) = HttpServerAddress s' \<and>
    PostToServer_begin msg (object g) =
      [SendPost (HttpServerAddress s' @ ''data/'' @ RemotePeerId s') msg] \<and>
    CO_GetAndProcessFromServer_begin (object g) =
      [SendGet (HttpServerAddress s' @ ''data/'' @ LocalPeerId s')] \<and>
    (\<not> EndsWith (HttpServerAddress s) ''//'' \<longrightarrow>
       \<not> EndsWith b ''/'' \<and>
       PostToServer_begin msg (object g) = [SendPost (b @ ''/data/'' @ RemotePeerId s') msg] \<and>
       CO_GetAndProcessFromServer_begin (object g) =
         [SendGet (b @ ''/data/'' @ LocalPeerId s')])"
proof -
  note start = Start_address [OF assms(1)]
  from visited_config [OF assms(2)]
  have same: "HttpServerAddress (object g) = HttpServerAddress s'"
    "LocalPeerId (object g) = LocalPeerId s'" "RemotePeerId (object g) = RemotePeerId s'"
    by (simp_all add: engine_of_def)
  have split: "HttpServerAddress s' = b @ ''/''"
    using start assms(3) by (simp add: EndsWith_butlast)
  then have ends: "EndsWith (HttpServerAddress s') ''/''"
    by (simp add: EndsWith_slash)
  have single: "\<not> EndsWith b ''/''" if "\<not> EndsWith (HttpServerAddress s) ''//''"
    using that assms(3) by (simp add: butlast_single_slash)
  from start same split ends single show ?thesis
    by (simp add: PostToServer_begin_def CO_GetAndProcessFromServer_begin_def)
qed

theorem Start_normalises_address_witness:
  "Start ''device-1'' configured_signaler =
     Inr (configured_signaler\<lparr>HttpServerAddress := ''http://relay:3000/''\<rparr>) \<and>
   \<not> EndsWith (HttpServerAddress configured_signaler) ''//'' \<and>
   \<not> EndsWith ''http://relay:3000'' ''/'' \<and>
   performed (run (\<lambda>json. JsonNull)
     (engine_of (configured_signaler\<lparr>HttpServerAddress := ''http://relay:3000/''\<rparr>))
     [Tick (3 / 5), Tick (3 / 5)]) = [SendGet ''http://relay:3000/data/alice''] \<and>
   PostToServer_begin short_ice_message (object (run (\<lambda>json. JsonNull)
     (engine_of (configured_signaler\<lparr>HttpServerAddress := ''http://relay:3000/''\<rparr>))
     [Tick (3 / 5), Tick (3 / 5)])) =
     [SendPost ''http://relay:3000/data/bob'' short_ice_message]"
proof -
  have started: "Start ''device-1'' configured_signaler =
      Inr (configured_signaler\<lparr>HttpServerAddress := ''http://relay:3000/''\<rparr>)"
    by (simp add: Start_def configured_signaler_def new_signaler_def EndsWith_def)
  have sent: "performed (run (\<lambda>json. JsonNull)
     (engine_of (configured_signaler\<lparr>HttpServerAddress := ''http://relay:3000/''\<rparr>))
     [Tick (3 / 5), Tick (3 / 5)]) = [SendGet ''http://relay:3000/data/alice'']"
    by (simp add: run_def engine_of_def configured_signaler_def new_signaler_def Update_def
        CO_GetAndProcessFromServer_begin_def Let_def)
  have there: "run (\<lambda>json. JsonNull)
     (engine_of (configured_signaler\<lparr>HttpServerAddress := ''http://relay:3000/''\<rparr>))
     [Tick (3 / 5), Tick (3 / 5)]
     \<in> set (visited (\<lambda>json. JsonNull)
       (engine_of (configured_signaler\<lparr>HttpServerAddress := ''http://relay:3000/''\<rparr>))
       [Tick (3 / 5), Tick (3 / 5)])"
    by (simp add: run_def)
  show ?thesis
    using Start_normalises_address [OF started there refl, of short_ice_message] started sent
    by (simp add: configured_signaler_def new_signaler_def EndsWith_def)
qed

end
